theory Spec2Isabelle
  imports Complex_Main
begin

section \<open>The geolocation hook of cache\_quest (src/hooks/useGeolocation.ts)\<close>

text \<open>
  The hook turns raw position fixes into a smoothed, rate-limited public state and
  tracks the permission life cycle. JavaScript numbers are modelled as \<open>real\<close>
  (finite values, exact arithmetic), strings as byte lists, React state and the
  \<open>useRef\<close> cells as fields of one record that every callback takes and returns.
  A \<open>setState\<close> with an updater function is the updater applied to the current state.
  Not-a-number and the infinities are left out; the stable count, timer ids and watch
  ids are natural numbers.
\<close>

subsection \<open>Types\<close>

datatype PermissionState = prompt | granted | denied | unsupported

record GeoPosition =
  latitude :: real
  longitude :: real
  accuracy :: real

text \<open>The part of the platform's \<open>GeolocationCoordinates\<close> the hook reads;
  \<open>speed\<close> is \<open>null\<close> on some devices.\<close>

record GeolocationCoordinates = GeoPosition +
  speed :: "real option"

text \<open>The platform's \<open>GeolocationPositionError\<close>: a numeric code and a message.\<close>

record GeolocationPositionError =
  code :: nat
  message :: string

definition PERMISSION_DENIED :: nat where "PERMISSION_DENIED = 1"
definition POSITION_UNAVAILABLE :: nat where "POSITION_UNAVAILABLE = 2"
definition TIMEOUT :: nat where "TIMEOUT = 3"

text \<open>\<open>GeolocationState\<close> without \<open>recalibrate\<close>: the React state of the hook. Its
  coordinates are nullable, so the three fields carry the prefix \<open>s_\<close>.\<close>

record GeolocationState =
  s_latitude :: "real option"
  s_longitude :: "real option"
  s_accuracy :: "real option"
  error :: "string option"
  loading :: bool
  permissionState :: PermissionState
  stale :: bool

text \<open>
  One hook instance together with the part of the browser it talks to:
  the React state, the five refs, the \<open>cancelled\<close> flag of the effect closure,
  whether the \<open>change\<close> listener is attached to the permission status object,
  the platform's capabilities and live permission state, outstanding promises and
  one-shot requests, the clock (ms), the pending timeouts (id, due time) and the
  active position watches.
\<close>

record Hook =
  state :: GeolocationState
  smoothedRef :: "GeoPosition option"
  lastPushedRef :: "GeoPosition option"
  stalenessTimerRef :: "nat option"
  watchIdRef :: "nat option"
  stableCountRef :: nat
  cancelled :: bool
  listener :: bool
  geolocation :: bool
  permissionsQuery :: bool
  permission :: PermissionState
  queryPending :: bool
  recalPending :: nat
  now :: nat
  timers :: "(nat \<times> nat) list"
  nextTimer :: nat
  watches :: "nat list"
  nextWatch :: nat

subsection \<open>Constants\<close>

definition EMA_ALPHA :: real where "EMA_ALPHA = 0.15"
definition MAX_ACCEPTABLE_ACCURACY :: real where "MAX_ACCEPTABLE_ACCURACY = 100"
definition MIN_MOVEMENT_THRESHOLD :: real where "MIN_MOVEMENT_THRESHOLD = 5"
definition STALENESS_TIMEOUT_MS :: nat where "STALENESS_TIMEOUT_MS = 30000"
definition SNAP_AFTER_STABLE_COUNT :: nat where "SNAP_AFTER_STABLE_COUNT = 3"

subsection \<open>Pure utilities\<close>

text \<open>\<open>Math.atan2(y, x)\<close> on finite numbers (signed zeros are not distinguished).\<close>

definition atan2 :: "real \<Rightarrow> real \<Rightarrow> real" where
  "atan2 y x =
     (if 0 < x then arctan (y / x)
      else if x < 0 then (if 0 \<le> y then arctan (y / x) + pi else arctan (y / x) - pi)
      else if 0 < y then pi / 2
      else if y < 0 then - (pi / 2)
      else 0)"

text \<open>The local \<open>a\<close> of \<open>haversine\<close> (lines 59--65).\<close>

definition haversine_a :: "real \<Rightarrow> real \<Rightarrow> real \<Rightarrow> real \<Rightarrow> real" where
  "haversine_a lat1 lng1 lat2 lng2 =
     (let dLat = ((lat2 - lat1) * pi) / 180;
          dLng = ((lng2 - lng1) * pi) / 180
      in (sin (dLat / 2))\<^sup>2 +
         cos ((lat1 * pi) / 180) * cos ((lat2 * pi) / 180) * (sin (dLng / 2))\<^sup>2)"

definition haversine :: "real \<Rightarrow> real \<Rightarrow> real \<Rightarrow> real \<Rightarrow> real" where
  "haversine lat1 lng1 lat2 lng2 =
     (let R = 6371000;
          a = haversine_a lat1 lng1 lat2 lng2
      in R * 2 * atan2 (sqrt a) (sqrt (1 - a)))"

text \<open>\<open>smooth\<close> (lines 70--81). The arithmetic here is exact, while the code rounds every
  operation to a double: there \<open>smooth (Some r) r alpha\<close> can differ from \<open>r\<close> in the last
  digit. The properties below are stated through the formula and through distances, and
  none of them uses such an identity.\<close>

definition smooth :: "GeoPosition option \<Rightarrow> GeoPosition \<Rightarrow> real \<Rightarrow> GeoPosition" where
  "smooth prev raw alpha =
     (case prev of
        None \<Rightarrow> raw
      | Some p \<Rightarrow>
          \<lparr> latitude = alpha * latitude raw + (1 - alpha) * latitude p,
            longitude = alpha * longitude raw + (1 - alpha) * longitude p,
            accuracy = alpha * accuracy raw + (1 - alpha) * accuracy p \<rparr>)"

text \<open>\<open>useDistanceTo\<close>: \<open>null\<close> while the user's position is unknown.\<close>

definition useDistanceTo :: "real option \<Rightarrow> real option \<Rightarrow> real \<Rightarrow> real \<Rightarrow> real option" where
  "useDistanceTo userLat userLng targetLat targetLng =
     (case userLat of
        None \<Rightarrow> None
      | Some la \<Rightarrow>
          (case userLng of
             None \<Rightarrow> None
           | Some lo \<Rightarrow> Some (haversine la lo targetLat targetLng)))"

subsection \<open>Timers and watches of the browser\<close>

definition clearTimeout :: "nat \<Rightarrow> Hook \<Rightarrow> Hook" where
  "clearTimeout i h = h\<lparr>timers := filter (\<lambda>(j, due). j \<noteq> i) (timers h)\<rparr>"

definition clearWatch :: "nat \<Rightarrow> Hook \<Rightarrow> Hook" where
  "clearWatch i h = h\<lparr>watches := filter (\<lambda>j. j \<noteq> i) (watches h)\<rparr>"

text \<open>The callback of the staleness timer (lines 118--120 and 147--149).\<close>

definition signalLost :: "GeolocationState \<Rightarrow> GeolocationState" where
  "signalLost prev =
     prev\<lparr>stale := True, error := Some ''Location signal lost. Move to an open area.''\<rparr>"

text \<open>
  Lines 117--120 and 146--149: clear the timer the ref holds when the ref is truthy
  (not \<open>null\<close> and not \<open>0\<close>), then schedule the callback \<open>STALENESS_TIMEOUT_MS\<close> from now
  and store the new id in the ref.
\<close>

definition rearmStaleness :: "Hook \<Rightarrow> Hook" where
  "rearmStaleness h =
     (let h1 = (case stalenessTimerRef h of
                  None \<Rightarrow> h
                | Some i \<Rightarrow> if i \<noteq> 0 then clearTimeout i h else h)
      in h1\<lparr>stalenessTimerRef := Some (nextTimer h1),
             timers := timers h1 @ [(nextTimer h1, now h1 + STALENESS_TIMEOUT_MS)],
             nextTimer := Suc (nextTimer h1)\<rparr>)"

subsection \<open>handlePosition\<close>

text \<open>JavaScript truthiness of \<open>string | null\<close>.\<close>

definition truthy :: "string option \<Rightarrow> bool" where
  "truthy e = (case e of None \<Rightarrow> False | Some t \<Rightarrow> t \<noteq> [])"

text \<open>The updater of lines 122--127 and 170--175.\<close>

definition clearFlags :: "GeolocationState \<Rightarrow> GeolocationState" where
  "clearFlags prev =
     (if loading prev \<or> truthy (error prev) \<or> stale prev \<or> permissionState prev \<noteq> granted
      then prev\<lparr>error := None, loading := False, permissionState := granted, stale := False\<rparr>
      else prev)"

text \<open>The speed test of line 112: a reported speed in \<open>[0, 0.3)\<close>.\<close>

definition lowSpeed :: "GeolocationCoordinates \<Rightarrow> bool" where
  "lowSpeed pos = (case speed pos of None \<Rightarrow> False | Some v \<Rightarrow> 0 \<le> v \<and> v < 0.3)"

text \<open>\<open>shouldPush\<close> of lines 152--155, from \<open>lastPushedRef.current\<close> and the new
  smoothed position.\<close>

definition shouldPush :: "GeoPosition option \<Rightarrow> GeoPosition \<Rightarrow> bool" where
  "shouldPush prev smoothed =
     (case prev of
        None \<Rightarrow> True
      | Some p \<Rightarrow>
          haversine (latitude p) (longitude p) (latitude smoothed) (longitude smoothed)
            \<ge> MIN_MOVEMENT_THRESHOLD)"

text \<open>Lines 135--176: smoothing, watchdog reset and the movement-threshold gate.\<close>

definition publish :: "GeolocationCoordinates \<Rightarrow> Hook \<Rightarrow> Hook" where
  "publish pos h =
     (let raw = \<lparr> latitude = latitude pos, longitude = longitude pos, accuracy = accuracy pos \<rparr>;
          smoothed = smooth (smoothedRef h) raw EMA_ALPHA;
          h1 = h\<lparr>smoothedRef := Some smoothed\<rparr>;
          h2 = rearmStaleness h1
      in if shouldPush (lastPushedRef h2) smoothed
         then h2\<lparr>lastPushedRef := Some smoothed,
                 state := \<lparr> s_latitude = Some (latitude smoothed),
                            s_longitude = Some (longitude smoothed),
                            s_accuracy = Some (accuracy smoothed),
                            error = None,
                            loading = False,
                            permissionState = granted,
                            stale = False \<rparr>\<rparr>
         else h2\<lparr>state := clearFlags (state h2)\<rparr>)"

text \<open>Lines 116--128: the snapped branch of the speed filter.\<close>

definition snap :: "Hook \<Rightarrow> Hook" where
  "snap h = (let h1 = rearmStaleness h in h1\<lparr>state := clearFlags (state h1)\<rparr>)"

definition handlePosition :: "GeolocationCoordinates \<Rightarrow> Hook \<Rightarrow> Hook" where
  "handlePosition pos h =
     (if accuracy pos > MAX_ACCEPTABLE_ACCURACY \<and> smoothedRef h \<noteq> None then h
      else if lowSpeed pos \<and> smoothedRef h \<noteq> None then
        (let h1 = h\<lparr>stableCountRef := stableCountRef h + 1\<rparr>
         in if stableCountRef h1 \<ge> SNAP_AFTER_STABLE_COUNT then snap h1 else publish pos h1)
      else publish pos (h\<lparr>stableCountRef := 0\<rparr>))"

subsection \<open>handleError\<close>

definition stopWatching :: "Hook \<Rightarrow> Hook" where
  "stopWatching h =
     (case watchIdRef h of
        None \<Rightarrow> h
      | Some i \<Rightarrow> (clearWatch i h)\<lparr>watchIdRef := None\<rparr>)"

definition acquiringMessage :: string where
  "acquiringMessage =
     ''Acquiring location'' @ [CHR 0xE2, CHR 0x80, CHR 0xA6] @ '' Please ensure GPS is enabled.''"

definition handleError :: "GeolocationPositionError \<Rightarrow> Hook \<Rightarrow> Hook" where
  "handleError err h =
     (if code err = PERMISSION_DENIED then
        stopWatching
          (h\<lparr>state := (state h)\<lparr>
             error := Some ''Location access denied. Please enable location in your browser settings to play.'',
             loading := False,
             permissionState := denied\<rparr>\<rparr>)
      else
        h\<lparr>state := (state h)\<lparr>
             error := (if s_latitude (state h) = None then Some acquiringMessage else None),
             loading := (s_latitude (state h) = None)\<rparr>\<rparr>)"

subsection \<open>The effect: permission check, watch, clean-up\<close>

definition startWatching :: "Hook \<Rightarrow> Hook" where
  "startWatching h =
     (if cancelled h then h
      else h\<lparr>watchIdRef := Some (nextWatch h),
              watches := watches h @ [nextWatch h],
              nextWatch := Suc (nextWatch h)\<rparr>)"

text \<open>The synchronous part of the effect body (lines 207--280).\<close>

definition useEffect :: "Hook \<Rightarrow> Hook" where
  "useEffect h =
     (if \<not> geolocation h then
        h\<lparr>state := (state h)\<lparr>
             error := Some ''Location services are not supported by your browser.'',
             loading := False,
             permissionState := unsupported\<rparr>\<rparr>
      else
        (let h1 = h\<lparr>cancelled := False\<rparr>
         in if permissionsQuery h1 then h1\<lparr>queryPending := True\<rparr> else startWatching h1))"

text \<open>The \<open>change\<close> listener of lines 256--271; \<open>result.state\<close> is \<open>permission h\<close>.\<close>

definition onChange :: "Hook \<Rightarrow> Hook" where
  "onChange h =
     (if permission h = denied then
        stopWatching
          (h\<lparr>state := (state h)\<lparr>
             error := Some ''Location access revoked.'',
             permissionState := denied\<rparr>\<rparr>)
      else if permission h = granted \<and> watchIdRef h = None then startWatching h
      else h)"

text \<open>The \<open>then\<close> callback of the permission query (lines 233--272).\<close>

definition queryThen :: "Hook \<Rightarrow> Hook" where
  "queryThen h =
     (if cancelled h then h
      else if permission h = denied then
        h\<lparr>state := (state h)\<lparr>
             error := Some ''Location access denied. Please enable location in your browser settings to play.'',
             loading := False,
             permissionState := denied\<rparr>\<rparr>
      else
        (startWatching (h\<lparr>state := (state h)\<lparr>permissionState := permission h\<rparr>\<rparr>))
          \<lparr>listener := True\<rparr>)"

text \<open>The \<open>catch\<close> callback (lines 273--276).\<close>

definition queryCatch :: "Hook \<Rightarrow> Hook" where
  "queryCatch h = (if \<not> cancelled h then startWatching h else h)"

text \<open>The clean-up function the effect returns (lines 282--291).\<close>

definition cleanup :: "Hook \<Rightarrow> Hook" where
  "cleanup h =
     (let h1 = stopWatching (h\<lparr>cancelled := True\<rparr>)
      in case stalenessTimerRef h1 of
           None \<Rightarrow> h1
         | Some i \<Rightarrow> if i \<noteq> 0 then clearTimeout i h1 else h1)"

subsection \<open>recalibrate\<close>

definition recalibrate :: "Hook \<Rightarrow> Hook" where
  "recalibrate h =
     (if \<not> geolocation h then h
      else h\<lparr>state := (state h)\<lparr>loading := True, error := None, stale := False\<rparr>,
              recalPending := Suc (recalPending h)\<rparr>)"

definition recalibrateFailed :: "GeolocationPositionError \<Rightarrow> Hook \<Rightarrow> Hook" where
  "recalibrateFailed err h =
     h\<lparr>state := (state h)\<lparr>
          error := Some (''Recalibration failed: '' @ message err),
          loading := False\<rparr>\<rparr>"

subsection \<open>Events\<close>

text \<open>
  What the browser and React can do to one mounted hook. An event whose callback
  is not registered at that moment changes nothing.
\<close>

datatype Event =
    Mount
  | QueryResolved PermissionState
  | QueryRejected
  | PermissionChange PermissionState
  | WatchSuccess GeolocationCoordinates
  | WatchError GeolocationPositionError
  | Recalibrate
  | RecalibrateSuccess GeolocationCoordinates
  | RecalibrateError GeolocationPositionError
  | Elapse nat
  | Unmount

definition fireTimer :: "nat \<Rightarrow> Hook \<Rightarrow> Hook" where
  "fireTimer i h =
     (if i \<in> fst ` set (timers h)
      then (clearTimeout i h)\<lparr>state := signalLost (state h)\<rparr>
      else h)"

definition elapse :: "nat \<Rightarrow> Hook \<Rightarrow> Hook" where
  "elapse d h =
     (let t = now h + d;
          due = filter (\<lambda>(i, deadline). deadline \<le> t) (timers h)
      in fold (\<lambda>(i, deadline). fireTimer i) due (h\<lparr>now := t\<rparr>))"

fun fire :: "Event \<Rightarrow> Hook \<Rightarrow> Hook" where
  "fire Mount h = useEffect h"
| "fire (QueryResolved p) h =
     (if queryPending h then queryThen (h\<lparr>queryPending := False, permission := p\<rparr>) else h)"
| "fire QueryRejected h =
     (if queryPending h then queryCatch (h\<lparr>queryPending := False\<rparr>) else h)"
| "fire (PermissionChange p) h =
     (let h1 = h\<lparr>permission := p\<rparr> in if listener h1 then onChange h1 else h1)"
| "fire (WatchSuccess pos) h = (if watches h \<noteq> [] then handlePosition pos h else h)"
| "fire (WatchError err) h = (if watches h \<noteq> [] then handleError err h else h)"
| "fire Recalibrate h = recalibrate h"
| "fire (RecalibrateSuccess pos) h =
     (if 0 < recalPending h then handlePosition pos (h\<lparr>recalPending := recalPending h - 1\<rparr>) else h)"
| "fire (RecalibrateError err) h =
     (if 0 < recalPending h then recalibrateFailed err (h\<lparr>recalPending := recalPending h - 1\<rparr>) else h)"
| "fire (Elapse d) h = elapse d h"
| "fire Unmount h = (if geolocation h then cleanup h else h)"

definition run :: "Event list \<Rightarrow> Hook \<Rightarrow> Hook" where
  "run es h = fold fire es h"

text \<open>A freshly rendered hook (lines 86--101) on a platform with the given capabilities.\<close>

definition initial :: "bool \<Rightarrow> bool \<Rightarrow> Hook" where
  "initial geo perms =
     \<lparr> state = \<lparr> s_latitude = None, s_longitude = None, s_accuracy = None, error = None,
                 loading = True, permissionState = prompt, stale = False \<rparr>,
       smoothedRef = None,
       lastPushedRef = None,
       stalenessTimerRef = None,
       watchIdRef = None,
       stableCountRef = 0,
       cancelled = False,
       listener = False,
       geolocation = geo,
       permissionsQuery = perms,
       permission = prompt,
       queryPending = False,
       recalPending = 0,
       now = 0,
       timers = [],
       nextTimer = 1,
       watches = [],
       nextWatch = 1 \<rparr>"

subsection \<open>Vocabulary of the properties\<close>

text \<open>The reading projected to latitude, longitude and accuracy (lines 135--139).\<close>

definition rawOf :: "GeolocationCoordinates \<Rightarrow> GeoPosition" where
  "rawOf pos = \<lparr> latitude = latitude pos, longitude = longitude pos, accuracy = accuracy pos \<rparr>"

text \<open>The accuracy gate rejects the reading (line 106).\<close>

definition discarded :: "GeolocationCoordinates \<Rightarrow> Hook \<Rightarrow> bool" where
  "discarded pos h = (accuracy pos > MAX_ACCEPTABLE_ACCURACY \<and> smoothedRef h \<noteq> None)"

text \<open>The speed filter classifies the reading as stationary (line 112).\<close>

definition stationary :: "GeolocationCoordinates \<Rightarrow> Hook \<Rightarrow> bool" where
  "stationary pos h = (lowSpeed pos \<and> smoothedRef h \<noteq> None)"

text \<open>The reading passes the accuracy gate and ends in the snapped branch (line 115).\<close>

definition snapped :: "GeolocationCoordinates \<Rightarrow> Hook \<Rightarrow> bool" where
  "snapped pos h =
     (\<not> discarded pos h \<and> stationary pos h \<and> stableCountRef h + 1 \<ge> SNAP_AFTER_STABLE_COUNT)"

text \<open>The reading reaches smoothing, the watchdog reset and the movement-threshold gate.\<close>

definition accepted :: "GeolocationCoordinates \<Rightarrow> Hook \<Rightarrow> bool" where
  "accepted pos h = (\<not> discarded pos h \<and> \<not> snapped pos h)"

text \<open>The flags a successful reading clears are clear.\<close>

definition flagsClear :: "GeolocationState \<Rightarrow> bool" where
  "flagsClear s = (error s = None \<and> \<not> loading s \<and> \<not> stale s \<and> permissionState s = granted)"

text \<open>Every pending timeout is the one \<open>stalenessTimerRef\<close> holds.\<close>

definition oneTimer :: "Hook \<Rightarrow> bool" where
  "oneTimer h = list_all (\<lambda>(i, deadline). i \<noteq> 0 \<and> stalenessTimerRef h = Some i) (timers h)"

text \<open>
  What every callback maintains: the public error is never the empty string, the only
  pending timeout is the one the ref holds, timer ids are positive, coordinates are
  exposed exactly when something was published, and nothing is published before a
  smoothed position exists.
\<close>

definition consistent :: "Hook \<Rightarrow> bool" where
  "consistent h =
     (error (state h) \<noteq> Some []
      \<and> oneTimer h
      \<and> 0 < nextTimer h
      \<and> (s_latitude (state h) = None) = (lastPushedRef h = None)
      \<and> (smoothedRef h = None \<longrightarrow> lastPushedRef h = None))"

subsection \<open>Example readings and runs\<close>

text \<open>Fixes on the equator: the origin, about 111 m east of it, about 11 m east of it,
  the origin with the device reporting 0.1 m/s, and an inaccurate stationary one.\<close>

definition fixA :: GeolocationCoordinates where
  "fixA = \<lparr> latitude = 0, longitude = 0, accuracy = 10, speed = None \<rparr>"

definition fixB :: GeolocationCoordinates where
  "fixB = \<lparr> latitude = 0, longitude = 0.001, accuracy = 10, speed = None \<rparr>"

definition fixNear :: GeolocationCoordinates where
  "fixNear = \<lparr> latitude = 0, longitude = 0.0001, accuracy = 10, speed = None \<rparr>"

definition fixSlow :: GeolocationCoordinates where
  "fixSlow = \<lparr> latitude = 0, longitude = 0, accuracy = 10, speed = Some 0.1 \<rparr>"

definition fixWild :: GeolocationCoordinates where
  "fixWild = \<lparr> latitude = 0, longitude = 0, accuracy = 500, speed = Some 0 \<rparr>"

definition transientError :: GeolocationPositionError where
  "transientError = \<lparr> code = TIMEOUT, message = ''Timeout expired'' \<rparr>"

text \<open>A browser without the Permissions API: the watch starts at once; first fix \<open>fixA\<close>.\<close>

definition baseline :: Hook where
  "baseline = run [Mount, WatchSuccess fixA] (initial True False)"

text \<open>The same hook after two further readings at 0.1 m/s.\<close>

definition twoSlow :: Hook where
  "twoSlow = run [WatchSuccess fixSlow, WatchSuccess fixSlow] baseline"

section \<open>Basic facts\<close>

subsection \<open>Distance\<close>

lemma haversine_same: "haversine la lo la lo = 0"
  by (simp add: haversine_def haversine_a_def atan2_def)

text \<open>The haversine term stays in \<open>[0, 1]\<close> for all real inputs, so both square roots
  are of non-negative numbers and \<open>atan2\<close> only sees the first quadrant.\<close>

lemma haversine_a_bounds: "0 \<le> haversine_a la1 lo1 la2 lo2 \<and> haversine_a la1 lo1 la2 lo2 \<le> 1"
proof -
  define p1 where "p1 = la1 * pi / 180"
  define p2 where "p2 = la2 * pi / 180"
  define u where "u = (p2 - p1) / 2"
  define s where "s = (sin (((lo2 - lo1) * pi) / 180 / 2))\<^sup>2"
  define C where "C = cos (p2 - p1)"
  define D where "D = cos (p2 + p1)"
  have s: "0 \<le> s" "s \<le> 1"
    by (simp_all add: s_def abs_square_le_1)
  have C: "- 1 \<le> C" "C \<le> 1" and D: "- 1 \<le> D" "D \<le> 1"
    by (simp_all add: C_def D_def)
  have half: "((la2 - la1) * pi) / 180 / 2 = u"
    by (simp add: u_def p1_def p2_def field_simps)
  have hu: "p2 - p1 = 2 * u"
    by (simp add: u_def)
  have "C = 1 - 2 * (sin u)\<^sup>2"
    unfolding C_def hu by (rule cos_double_sin)
  then have sq: "(sin u)\<^sup>2 = (1 - C) / 2"
    by simp
  have prod: "cos p1 * cos p2 = (C + D) / 2"
    by (simp add: C_def D_def cos_diff cos_add)
  have a: "haversine_a la1 lo1 la2 lo2 = (1 - C) / 2 + (C + D) / 2 * s"
    unfolding haversine_a_def Let_def half sq
    using prod by (simp add: p1_def p2_def s_def)
  have "C * (1 - s) \<le> 1 * (1 - s)" "(- 1) * (1 - s) \<le> C * (1 - s)"
    using C s by (intro mult_right_mono; simp)+
  then have Cs: "C * (1 - s) \<le> 1 - s" "- (1 - s) \<le> C * (1 - s)"
    by simp_all
  have "D * s \<le> 1 * s" "(- 1) * s \<le> D * s"
    using D s by (intro mult_right_mono; simp)+
  then have Ds: "D * s \<le> s" "- s \<le> D * s"
    by simp_all
  have "haversine_a la1 lo1 la2 lo2 = (1 - C * (1 - s) + D * s) / 2"
    by (simp add: a field_simps)
  with Cs Ds show ?thesis by simp
qed

text \<open>Along the equator the distance is the arc length: one degree is
  \<open>6371000 * pi / 180\<close> m, about 111195 m.\<close>

lemma atan2_sin_cos:
  assumes "0 \<le> t" "t \<le> pi / 2"
  shows "atan2 (sin t) (cos t) = t"
proof (cases "t = pi / 2")
  case True
  show ?thesis unfolding True by (simp add: atan2_def)
next
  case False
  with assms have lt: "t < pi / 2" by simp
  with assms have c: "0 < cos t" by (simp add: cos_gt_zero_pi)
  have "arctan (tan t) = t"
    using assms lt by (intro arctan_tan) simp_all
  with c show ?thesis by (simp add: atan2_def tan_def)
qed

lemma haversine_equator:
  assumes "0 \<le> x" "x \<le> 180"
  shows "haversine 0 0 0 x = 6371000 * (x * pi / 180)"
proof -
  define t where "t = x * pi / 360"
  have t: "0 \<le> t" "t \<le> pi / 2"
    using assms by (simp_all add: t_def)
  have a: "haversine_a 0 0 0 x = (sin t)\<^sup>2"
    by (simp add: haversine_a_def t_def)
  have s: "0 \<le> sin t" using t by (simp add: sin_ge_zero)
  have c: "0 \<le> cos t" using t by (simp add: cos_ge_zero)
  have "1 - (sin t)\<^sup>2 = (cos t)\<^sup>2"
    using sin_cos_squared_add [of t] by linarith
  then have "atan2 (sqrt (haversine_a 0 0 0 x)) (sqrt (1 - haversine_a 0 0 0 x)) = atan2 (sin t) (cos t)"
    using s c by (simp add: a)
  also have "\<dots> = t"
    by (rule atan2_sin_cos [OF t])
  finally have "haversine 0 0 0 x = 6371000 * 2 * t"
    by (simp add: haversine_def Let_def)
  then show ?thesis
    by (simp add: t_def)
qed

lemma haversine_along_equator:
  assumes "lo1 \<le> lo2" "lo2 - lo1 \<le> 180"
  shows "haversine 0 lo1 0 lo2 = 6371000 * ((lo2 - lo1) * pi / 180)"
proof -
  have "haversine_a 0 lo1 0 lo2 = haversine_a 0 0 0 (lo2 - lo1)"
    by (simp add: haversine_a_def)
  then have "haversine 0 lo1 0 lo2 = haversine 0 0 0 (lo2 - lo1)"
    by (simp add: haversine_def)
  with assms show ?thesis
    by (simp add: haversine_equator)
qed

subsection \<open>Frame facts of the pipeline\<close>

lemma rearmStaleness_frame [simp]:
  "state (rearmStaleness h) = state h"
  "smoothedRef (rearmStaleness h) = smoothedRef h"
  "lastPushedRef (rearmStaleness h) = lastPushedRef h"
  "stableCountRef (rearmStaleness h) = stableCountRef h"
  "watchIdRef (rearmStaleness h) = watchIdRef h"
  "watches (rearmStaleness h) = watches h"
  "now (rearmStaleness h) = now h"
  by (simp_all add: rearmStaleness_def clearTimeout_def Let_def split: option.splits)

lemma publish_smoothedRef [simp]:
  "smoothedRef (publish pos h) = Some (smooth (smoothedRef h) (rawOf pos) EMA_ALPHA)"
  by (simp add: publish_def rawOf_def Let_def)

lemma publish_stableCountRef [simp]:
  "stableCountRef (publish pos h) = stableCountRef h"
  by (simp add: publish_def Let_def)

lemma publish_lastPushedRef:
  "lastPushedRef (publish pos h) =
     (if shouldPush (lastPushedRef h) (smooth (smoothedRef h) (rawOf pos) EMA_ALPHA)
      then Some (smooth (smoothedRef h) (rawOf pos) EMA_ALPHA) else lastPushedRef h)"
  by (simp add: publish_def rawOf_def Let_def)

lemma publish_state:
  "state (publish pos h) =
     (let sm = smooth (smoothedRef h) (rawOf pos) EMA_ALPHA
      in if shouldPush (lastPushedRef h) sm
         then \<lparr> s_latitude = Some (latitude sm), s_longitude = Some (longitude sm),
                s_accuracy = Some (accuracy sm), error = None, loading = False,
                permissionState = granted, stale = False \<rparr>
         else clearFlags (state h))"
  by (simp add: publish_def rawOf_def Let_def)

lemma handlePosition_discarded: "discarded pos h \<Longrightarrow> handlePosition pos h = h"
  by (simp add: handlePosition_def discarded_def)

lemma handlePosition_snapped:
  "snapped pos h \<Longrightarrow> handlePosition pos h = snap (h\<lparr>stableCountRef := stableCountRef h + 1\<rparr>)"
  by (auto simp add: handlePosition_def snapped_def discarded_def stationary_def Let_def)

lemma handlePosition_accepted:
  "accepted pos h \<Longrightarrow>
   handlePosition pos h =
     publish pos (h\<lparr>stableCountRef := (if stationary pos h then stableCountRef h + 1 else 0)\<rparr>)"
  by (auto simp add: handlePosition_def accepted_def snapped_def discarded_def stationary_def Let_def)

lemma clearFlags_flagsClear: "error s \<noteq> Some [] \<Longrightarrow> flagsClear (clearFlags s)"
  by (auto simp add: clearFlags_def flagsClear_def truthy_def split: option.splits)

lemma clearFlags_id: "flagsClear s \<Longrightarrow> clearFlags s = s"
  by (simp add: clearFlags_def flagsClear_def truthy_def)

lemma clearFlags_coords [simp]:
  "s_latitude (clearFlags s) = s_latitude s"
  "s_longitude (clearFlags s) = s_longitude s"
  "s_accuracy (clearFlags s) = s_accuracy s"
  by (simp_all add: clearFlags_def)

lemma baseline_eval:
  "baseline = (initial True False)\<lparr>
      state := \<lparr> s_latitude = Some 0, s_longitude = Some 0, s_accuracy = Some 10, error = None,
                 loading = False, permissionState = granted, stale = False \<rparr>,
      smoothedRef := Some \<lparr>latitude = 0, longitude = 0, accuracy = 10\<rparr>,
      lastPushedRef := Some \<lparr>latitude = 0, longitude = 0, accuracy = 10\<rparr>,
      stalenessTimerRef := Some 1,
      watchIdRef := Some 1,
      timers := [(1, 30000)],
      nextTimer := 2,
      watches := [1],
      nextWatch := 2\<rparr>"
  by (simp add: baseline_def run_def initial_def useEffect_def startWatching_def handlePosition_def
      publish_def rearmStaleness_def shouldPush_def smooth_def fixA_def Let_def
      MAX_ACCEPTABLE_ACCURACY_def STALENESS_TIMEOUT_MS_def lowSpeed_def)

subsection \<open>The watchdog timer\<close>

lemma rearmStaleness_oneTimer:
  assumes "oneTimer h"
  shows "timers (rearmStaleness h) = [(nextTimer h, now h + STALENESS_TIMEOUT_MS)]"
    and "stalenessTimerRef (rearmStaleness h) = Some (nextTimer h)"
    and "nextTimer (rearmStaleness h) = Suc (nextTimer h)"
proof -
  have "filter (\<lambda>(j, deadline). j \<noteq> i) (timers h) = []" if "stalenessTimerRef h = Some i" for i
    using assms that by (auto simp add: oneTimer_def list_all_iff filter_empty_conv)
  moreover have "timers h = []" if "stalenessTimerRef h = None \<or> stalenessTimerRef h = Some 0"
    using assms that by (cases "timers h") (auto simp add: oneTimer_def)
  ultimately show "timers (rearmStaleness h) = [(nextTimer h, now h + STALENESS_TIMEOUT_MS)]"
    by (auto simp add: rearmStaleness_def clearTimeout_def Let_def split: option.splits)
  show "stalenessTimerRef (rearmStaleness h) = Some (nextTimer h)"
    and "nextTimer (rearmStaleness h) = Suc (nextTimer h)"
    by (simp_all add: rearmStaleness_def clearTimeout_def Let_def split: option.splits)
qed

lemma handlePosition_rearmed:
  assumes "accepted pos h \<or> snapped pos h" and "oneTimer h"
  shows "timers (handlePosition pos h) = [(nextTimer h, now h + STALENESS_TIMEOUT_MS)]"
    and "now (handlePosition pos h) = now h"
proof -
  let ?c = "if stationary pos h then stableCountRef h + 1 else 0"
  have one: "oneTimer (h\<lparr>stableCountRef := c, smoothedRef := s\<rparr>)" for c s
    using assms(2) by (simp add: oneTimer_def)
  have one': "oneTimer (h\<lparr>stableCountRef := c\<rparr>)" for c
    using assms(2) by (simp add: oneTimer_def)
  show "timers (handlePosition pos h) = [(nextTimer h, now h + STALENESS_TIMEOUT_MS)]"
    using assms(1)
  proof
    assume "accepted pos h"
    then show ?thesis
      using rearmStaleness_oneTimer(1) [OF one]
      by (simp add: handlePosition_accepted publish_def Let_def)
  next
    assume "snapped pos h"
    then show ?thesis
      using rearmStaleness_oneTimer(1) [OF one']
      by (simp add: handlePosition_snapped snap_def Let_def)
  qed
  show "now (handlePosition pos h) = now h"
    using assms(1)
    by (auto simp add: handlePosition_accepted handlePosition_snapped publish_def snap_def Let_def)
qed

lemma elapse_single:
  assumes "timers h = [(i, deadline)]"
  shows "elapse d h =
           (if deadline \<le> now h + d
            then h\<lparr>now := now h + d, timers := [], state := signalLost (state h)\<rparr>
            else h\<lparr>now := now h + d\<rparr>)"
  using assms by (simp add: elapse_def fireTimer_def clearTimeout_def Let_def)

lemma signalLost_baseline:
  "state (elapse 30000 baseline) =
     \<lparr> s_latitude = Some 0, s_longitude = Some 0, s_accuracy = Some 10,
       error = Some ''Location signal lost. Move to an open area.'',
       loading = False, permissionState = granted, stale = True \<rparr>"
  by (simp add: baseline_eval initial_def elapse_def fireTimer_def clearTimeout_def signalLost_def)

subsection \<open>Evaluating the movement threshold on the equator\<close>

lemma shouldPush_east_far:
  assumes "a + 0.0001 \<le> b" and "b \<le> a + 180"
  shows "shouldPush (Some \<lparr>latitude = 0, longitude = a, accuracy = x\<rparr>)
           \<lparr>latitude = 0, longitude = b, accuracy = y\<rparr>"
proof -
  have d: "haversine 0 a 0 b = 6371000 * ((b - a) * pi / 180)"
    using assms by (intro haversine_along_equator) simp_all
  define z where "z = (b - a) * pi"
  have "0.0001 * 2 \<le> (b - a) * pi"
    using assms pi_ge_two by (intro mult_mono) simp_all
  then have "0.0002 \<le> z"
    by (simp add: z_def)
  then have "5 \<le> 6371000 * (z / 180)"
    by simp
  then have "5 \<le> 6371000 * ((b - a) * pi / 180)"
    by (simp only: z_def)
  then show ?thesis
    by (simp add: shouldPush_def MIN_MOVEMENT_THRESHOLD_def d)
qed

lemma shouldPush_same:
  "\<not> shouldPush (Some \<lparr>latitude = la, longitude = lo, accuracy = x\<rparr>)
        \<lparr>latitude = la, longitude = lo, accuracy = y\<rparr>"
  by (simp add: shouldPush_def MIN_MOVEMENT_THRESHOLD_def haversine_same)

lemma shouldPush_east_near:
  assumes "a \<le> b" and "b \<le> a + 0.00003"
  shows "\<not> shouldPush (Some \<lparr>latitude = 0, longitude = a, accuracy = x\<rparr>)
             \<lparr>latitude = 0, longitude = b, accuracy = y\<rparr>"
proof -
  have d: "haversine 0 a 0 b = 6371000 * ((b - a) * pi / 180)"
    using assms by (intro haversine_along_equator) simp_all
  define z where "z = (b - a) * pi"
  have "(b - a) * pi \<le> 0.00003 * 4"
    using assms pi_less_4 by (intro mult_mono) simp_all
  then have "z \<le> 0.00012"
    by (simp add: z_def)
  then have "6371000 * (z / 180) < 5"
    by simp
  then have "6371000 * ((b - a) * pi / 180) < 5"
    by (simp only: z_def)
  then show ?thesis
    by (simp add: shouldPush_def MIN_MOVEMENT_THRESHOLD_def d)
qed

lemma baseline_fixB:
  "handlePosition fixB baseline = baseline\<lparr>
      state := \<lparr> s_latitude = Some 0, s_longitude = Some 0.00015, s_accuracy = Some 10,
                 error = None, loading = False, permissionState = granted, stale = False \<rparr>,
      smoothedRef := Some \<lparr>latitude = 0, longitude = 0.00015, accuracy = 10\<rparr>,
      lastPushedRef := Some \<lparr>latitude = 0, longitude = 0.00015, accuracy = 10\<rparr>,
      stalenessTimerRef := Some 2,
      timers := [(2, 30000)],
      nextTimer := 3\<rparr>"
  by (simp add: baseline_eval initial_def handlePosition_def publish_def rearmStaleness_def
      clearTimeout_def smooth_def fixB_def Let_def shouldPush_east_far
      MAX_ACCEPTABLE_ACCURACY_def STALENESS_TIMEOUT_MS_def EMA_ALPHA_def lowSpeed_def)

lemma baseline_fixA:
  "handlePosition fixA baseline = baseline\<lparr>
      stalenessTimerRef := Some 2,
      timers := [(2, 30000)],
      nextTimer := 3\<rparr>"
  by (simp add: baseline_eval initial_def handlePosition_def publish_def rearmStaleness_def
      clearTimeout_def smooth_def fixA_def Let_def shouldPush_same clearFlags_def truthy_def
      MAX_ACCEPTABLE_ACCURACY_def STALENESS_TIMEOUT_MS_def EMA_ALPHA_def lowSpeed_def)

lemma baseline_fixNear:
  "handlePosition fixNear baseline = baseline\<lparr>
      smoothedRef := Some \<lparr>latitude = 0, longitude = 0.000015, accuracy = 10\<rparr>,
      stalenessTimerRef := Some 2,
      timers := [(2, 30000)],
      nextTimer := 3\<rparr>"
  by (simp add: baseline_eval initial_def handlePosition_def publish_def rearmStaleness_def
      clearTimeout_def smooth_def fixNear_def Let_def shouldPush_east_near clearFlags_def
      truthy_def MAX_ACCEPTABLE_ACCURACY_def STALENESS_TIMEOUT_MS_def EMA_ALPHA_def lowSpeed_def)

subsection \<open>The snapped branch\<close>

lemma snap_frame:
  "smoothedRef (snap h) = smoothedRef h"
  "lastPushedRef (snap h) = lastPushedRef h"
  "stableCountRef (snap h) = stableCountRef h"
  "state (snap h) = clearFlags (state h)"
  by (simp_all add: snap_def Let_def)

lemma clearFlags_flags:
  "loading (clearFlags s) = False"
  "stale (clearFlags s) = False"
  "permissionState (clearFlags s) = granted"
  "\<not> truthy (error (clearFlags s))"
  by (auto simp add: clearFlags_def truthy_def)

lemma rearmStaleness_armed:
  "stalenessTimerRef (rearmStaleness h) = Some (nextTimer h)"
  "(nextTimer h, now h + STALENESS_TIMEOUT_MS) \<in> set (timers (rearmStaleness h))"
  by (simp_all add: rearmStaleness_def clearTimeout_def Let_def split: option.splits)

lemma twoSlow_eval:
  "twoSlow = baseline\<lparr>
      stableCountRef := 2,
      stalenessTimerRef := Some 3,
      timers := [(3, 30000)],
      nextTimer := 4\<rparr>"
  by (simp add: twoSlow_def run_def baseline_eval initial_def handlePosition_def publish_def
      rearmStaleness_def clearTimeout_def smooth_def fixSlow_def Let_def shouldPush_same
      clearFlags_def truthy_def MAX_ACCEPTABLE_ACCURACY_def STALENESS_TIMEOUT_MS_def
      SNAP_AFTER_STABLE_COUNT_def EMA_ALPHA_def lowSpeed_def)

subsection \<open>Feeding a reading again\<close>

lemma publish_flagsClear:
  assumes "error (state h) \<noteq> Some []"
  shows "flagsClear (state (publish pos h))"
  using assms clearFlags_flagsClear [of "state h"]
  by (simp add: publish_state Let_def flagsClear_def)

lemma publish_lastPushedRef_Some:
  "lastPushedRef (publish pos h) \<noteq> None"
  by (cases "lastPushedRef h") (simp_all add: publish_lastPushedRef shouldPush_def)

subsection \<open>A one-shot fix that arrives after the clean-up\<close>

text \<open>\<open>getCurrentPosition\<close> cannot be cancelled: its success callback still runs
  \<open>handlePosition\<close>, which writes the public state and arms a new timer.\<close>

lemma recalibration_after_cleanup:
  "timers (run [Mount, Recalibrate, Unmount] (initial True False)) = []
   \<and> s_latitude (state (run [Mount, Recalibrate, Unmount] (initial True False))) = None
   \<and> s_latitude (state (run [Mount, Recalibrate, Unmount, RecalibrateSuccess fixA]
        (initial True False))) = Some 0
   \<and> timers (run [Mount, Recalibrate, Unmount, RecalibrateSuccess fixA]
        (initial True False)) = [(1, 30000)]"
  by (simp add: run_def initial_def useEffect_def startWatching_def recalibrate_def
      handlePosition_def publish_def rearmStaleness_def clearTimeout_def clearWatch_def
      shouldPush_def smooth_def fixA_def lowSpeed_def cleanup_def stopWatching_def
      Let_def MAX_ACCEPTABLE_ACCURACY_def STALENESS_TIMEOUT_MS_def)

subsection \<open>What every callback maintains\<close>

lemma oneTimer_clearTimeout: "oneTimer h \<Longrightarrow> oneTimer (clearTimeout i h)"
  by (simp add: oneTimer_def clearTimeout_def list_all_iff)

lemma oneTimer_rearmStaleness: "0 < nextTimer h \<Longrightarrow> oneTimer h \<Longrightarrow> oneTimer (rearmStaleness h)"
  using rearmStaleness_oneTimer [of h] by (simp add: oneTimer_def)

lemma consistent_rearmStaleness: "consistent h \<Longrightarrow> consistent (rearmStaleness h)"
  using oneTimer_rearmStaleness [of h] rearmStaleness_oneTimer(3) [of h]
  by (simp add: consistent_def)

lemma consistent_clearFlags:
  "consistent h \<Longrightarrow> consistent (h\<lparr>state := clearFlags (state h)\<rparr>)"
  by (auto simp add: consistent_def oneTimer_def clearFlags_def)

lemma consistent_stableCount:
  "consistent h \<Longrightarrow> consistent (h\<lparr>stableCountRef := c\<rparr>)"
  by (simp add: consistent_def oneTimer_def)

lemma consistent_snap: "consistent h \<Longrightarrow> consistent (snap h)"
  unfolding snap_def Let_def
  by (intro consistent_clearFlags consistent_rearmStaleness)

lemma consistent_publish:
  assumes "consistent h"
  shows "consistent (publish pos h)"
proof -
  let ?sm = "smooth (smoothedRef h) (rawOf pos) EMA_ALPHA"
  let ?h1 = "h\<lparr>smoothedRef := Some ?sm\<rparr>"
  have "consistent ?h1"
    using assms by (simp add: consistent_def oneTimer_def)
  then have c2: "consistent (rearmStaleness ?h1)"
    by (rule consistent_rearmStaleness)
  show ?thesis
  proof (cases "shouldPush (lastPushedRef h) ?sm")
    case True
    then have "publish pos h = (rearmStaleness ?h1)\<lparr>lastPushedRef := Some ?sm,
        state := \<lparr> s_latitude = Some (latitude ?sm), s_longitude = Some (longitude ?sm),
                   s_accuracy = Some (accuracy ?sm), error = None, loading = False,
                   permissionState = granted, stale = False \<rparr>\<rparr>"
      by (simp add: publish_def rawOf_def Let_def)
    then show ?thesis
      using c2 by (simp add: consistent_def oneTimer_def)
  next
    case False
    then have "publish pos h = (rearmStaleness ?h1)\<lparr>state := clearFlags (state (rearmStaleness ?h1))\<rparr>"
      by (simp add: publish_def rawOf_def Let_def)
    then show ?thesis
      using consistent_clearFlags [OF c2] by simp
  qed
qed

lemma consistent_handlePosition: "consistent h \<Longrightarrow> consistent (handlePosition pos h)"
  by (simp add: handlePosition_def Let_def consistent_publish consistent_snap consistent_stableCount)

lemma consistent_stopWatching: "consistent h \<Longrightarrow> consistent (stopWatching h)"
  by (simp add: stopWatching_def clearWatch_def consistent_def oneTimer_def split: option.splits)

lemma consistent_startWatching: "consistent h \<Longrightarrow> consistent (startWatching h)"
  by (simp add: startWatching_def consistent_def oneTimer_def)

lemma consistent_handleError: "consistent h \<Longrightarrow> consistent (handleError err h)"
proof (cases "code err = PERMISSION_DENIED")
  case True
  assume "consistent h"
  then have "consistent (h\<lparr>state := (state h)\<lparr>
      error := Some ''Location access denied. Please enable location in your browser settings to play.'',
      loading := False, permissionState := denied\<rparr>\<rparr>)"
    by (simp add: consistent_def oneTimer_def)
  then show ?thesis
    using True by (simp add: handleError_def consistent_stopWatching)
next
  case False
  assume "consistent h"
  then show ?thesis
    using False by (simp add: handleError_def consistent_def oneTimer_def acquiringMessage_def)
qed

lemma consistent_useEffect: "consistent h \<Longrightarrow> consistent (useEffect h)"
  by (simp add: useEffect_def startWatching_def Let_def consistent_def oneTimer_def)

lemma consistent_queryThen: "consistent h \<Longrightarrow> consistent (queryThen h)"
  by (simp add: queryThen_def startWatching_def consistent_def oneTimer_def)

lemma consistent_queryCatch: "consistent h \<Longrightarrow> consistent (queryCatch h)"
  by (simp add: queryCatch_def consistent_startWatching)

lemma consistent_onChange: "consistent h \<Longrightarrow> consistent (onChange h)"
proof -
  assume c: "consistent h"
  then have "consistent (h\<lparr>state := (state h)\<lparr>error := Some ''Location access revoked.'',
      permissionState := denied\<rparr>\<rparr>)"
    by (simp add: consistent_def oneTimer_def)
  then show ?thesis
    using c by (simp add: onChange_def consistent_stopWatching consistent_startWatching)
qed

lemma consistent_cleanup: "consistent h \<Longrightarrow> consistent (cleanup h)"
proof -
  assume "consistent h"
  then have "consistent (h\<lparr>cancelled := True\<rparr>)"
    by (simp add: consistent_def oneTimer_def)
  then have c: "consistent (stopWatching (h\<lparr>cancelled := True\<rparr>))"
    by (rule consistent_stopWatching)
  have "consistent (clearTimeout i k)" if "consistent k" for i k
    using that oneTimer_clearTimeout [of k i] by (simp add: consistent_def clearTimeout_def)
  with c show ?thesis
    by (simp add: cleanup_def Let_def split: option.splits)
qed

lemma consistent_recalibrate: "consistent h \<Longrightarrow> consistent (recalibrate h)"
  by (simp add: recalibrate_def consistent_def oneTimer_def)

lemma consistent_recalibrateFailed: "consistent h \<Longrightarrow> consistent (recalibrateFailed err h)"
  by (simp add: recalibrateFailed_def consistent_def oneTimer_def)

lemma consistent_fireTimer: "consistent h \<Longrightarrow> consistent (fireTimer i h)"
  using oneTimer_clearTimeout [of h i]
  by (simp add: fireTimer_def consistent_def clearTimeout_def signalLost_def oneTimer_def)

lemma consistent_fold_fireTimer:
  "consistent h \<Longrightarrow> consistent (fold (\<lambda>(i, deadline). fireTimer i) due h)"
  by (induction due arbitrary: h) (auto simp add: consistent_fireTimer)

lemma consistent_elapse: "consistent h \<Longrightarrow> consistent (elapse d h)"
proof -
  assume "consistent h"
  then have "consistent (h\<lparr>now := now h + d\<rparr>)"
    by (simp add: consistent_def oneTimer_def)
  then show ?thesis
    unfolding elapse_def Let_def by (rule consistent_fold_fireTimer)
qed

lemma consistent_fire: "consistent h \<Longrightarrow> consistent (fire e h)"
proof (cases e)
  case (QueryResolved p)
  assume "consistent h"
  then have "consistent (h\<lparr>queryPending := False, permission := p\<rparr>)"
    by (simp add: consistent_def oneTimer_def)
  then show ?thesis
    using \<open>consistent h\<close> QueryResolved by (simp add: consistent_queryThen)
next
  case QueryRejected
  assume "consistent h"
  then have "consistent (h\<lparr>queryPending := False\<rparr>)"
    by (simp add: consistent_def oneTimer_def)
  then show ?thesis
    using \<open>consistent h\<close> QueryRejected by (simp add: consistent_queryCatch)
next
  case (PermissionChange p)
  assume "consistent h"
  then have "consistent (h\<lparr>permission := p\<rparr>)"
    by (simp add: consistent_def oneTimer_def)
  then show ?thesis
    using PermissionChange by (simp add: Let_def consistent_onChange)
next
  case (RecalibrateSuccess pos)
  assume "consistent h"
  then have "consistent (h\<lparr>recalPending := recalPending h - 1\<rparr>)"
    by (simp add: consistent_def oneTimer_def)
  then show ?thesis
    using \<open>consistent h\<close> RecalibrateSuccess by (simp add: consistent_handlePosition)
next
  case (RecalibrateError err)
  assume "consistent h"
  then have "consistent (h\<lparr>recalPending := recalPending h - 1\<rparr>)"
    by (simp add: consistent_def oneTimer_def)
  then show ?thesis
    using \<open>consistent h\<close> RecalibrateError by (simp add: consistent_recalibrateFailed)
qed (simp_all add: consistent_useEffect consistent_handlePosition consistent_handleError
      consistent_recalibrate consistent_elapse consistent_cleanup)

text \<open>Every state the hook reaches from its first render is consistent, whatever the
  browser delivers.\<close>

lemma consistent_initial: "consistent (initial geo perms)"
  by (simp add: consistent_def oneTimer_def initial_def)

lemma consistent_run: "consistent h \<Longrightarrow> consistent (run es h)"
  unfolding run_def by (induction es arbitrary: h) (simp_all add: consistent_fire)

lemma reachable_consistent: "consistent (run es (initial geo perms))"
  by (intro consistent_run consistent_initial)

subsection \<open>Stopping the subscription\<close>

text \<open>The clean-up cancels the watch and the pending timer and touches neither the
  public state nor the permission listener.\<close>

lemma cleanup_cancels:
  "cancelled (cleanup h)
   \<and> watchIdRef (cleanup h) = None
   \<and> (watchIdRef h = Some i \<longrightarrow> i \<notin> set (watches (cleanup h)))
   \<and> (oneTimer h \<longrightarrow> timers (cleanup h) = [])
   \<and> state (cleanup h) = state h
   \<and> listener (cleanup h) = listener h"
proof -
  have "timers h = []" if "oneTimer h" "stalenessTimerRef h = None \<or> stalenessTimerRef h = Some 0"
    using that by (cases "timers h") (auto simp add: oneTimer_def)
  moreover have "filter (\<lambda>(j, deadline). j \<noteq> k) (timers h) = []"
    if "oneTimer h" "stalenessTimerRef h = Some k" for k
    using that by (auto simp add: oneTimer_def list_all_iff filter_empty_conv)
  ultimately show ?thesis
    by (auto simp add: cleanup_def stopWatching_def clearWatch_def clearTimeout_def Let_def
        split: option.splits)
qed

text \<open>Both writers of \<open>denied\<close> that can run while a watch is active clear it.\<close>

lemma denied_stops_watching:
  "code err = PERMISSION_DENIED \<Longrightarrow>
     permissionState (state (handleError err h)) = denied \<and> watchIdRef (handleError err h) = None"
  "permission h = denied \<Longrightarrow>
     permissionState (state (onChange h)) = denied \<and> watchIdRef (onChange h) = None"
  by (simp_all add: handleError_def onChange_def stopWatching_def clearWatch_def
      split: option.splits)

section \<open>Position smoother\<close>

text \<open>
  C6. With no previous smoothed position the smoother returns the raw reading; with
  one, latitude, longitude and accuracy are each \<open>alpha * new + (1 - alpha) * previous\<close>;
  the factor the pipeline uses is 0.15, and smoothing (10,10,10) with (20,20,20)
  gives (11.5, 11.5, 11.5).
\<close>

theorem smooth_ema:
  "smooth None raw alpha = raw
   \<and> latitude (smooth (Some p) raw alpha) = alpha * latitude raw + (1 - alpha) * latitude p
   \<and> longitude (smooth (Some p) raw alpha) = alpha * longitude raw + (1 - alpha) * longitude p
   \<and> accuracy (smooth (Some p) raw alpha) = alpha * accuracy raw + (1 - alpha) * accuracy p
   \<and> EMA_ALPHA = 0.15
   \<and> smooth (Some \<lparr>latitude = 10, longitude = 10, accuracy = 10\<rparr>)
        \<lparr>latitude = 20, longitude = 20, accuracy = 20\<rparr> EMA_ALPHA
      = \<lparr>latitude = 11.5, longitude = 11.5, accuracy = 11.5\<rparr>"
  by (simp add: smooth_def EMA_ALPHA_def)

section \<open>Accuracy gate\<close>

text \<open>
  C5. A reading that arrives when a smoothed position exists and whose accuracy radius
  exceeds 100 m is discarded: the whole hook (smoothed and published position, stable
  count, public state, timers) is unchanged. The very first reading (no smoothed
  position yet) is accepted whatever its accuracy: it becomes the smoothed position,
  the watchdog is armed, and with nothing published yet it is published.
\<close>

theorem accuracy_gate:
  "(smoothedRef h \<noteq> None \<and> accuracy pos > 100 \<longrightarrow> handlePosition pos h = h)
   \<and> (smoothedRef h = None \<longrightarrow>
        accepted pos h
        \<and> smoothedRef (handlePosition pos h) = Some (rawOf pos)
        \<and> stableCountRef (handlePosition pos h) = 0
        \<and> stalenessTimerRef (handlePosition pos h) = Some (nextTimer h)
        \<and> (nextTimer h, now h + 30000) \<in> set (timers (handlePosition pos h))
        \<and> (lastPushedRef h = None \<longrightarrow>
             lastPushedRef (handlePosition pos h) = Some (rawOf pos)
             \<and> state (handlePosition pos h) =
                 \<lparr> s_latitude = Some (latitude pos), s_longitude = Some (longitude pos),
                   s_accuracy = Some (accuracy pos), error = None, loading = False,
                   permissionState = granted, stale = False \<rparr>))"
proof (intro conjI impI)
  assume "smoothedRef h \<noteq> None \<and> accuracy pos > 100"
  then show "handlePosition pos h = h"
    by (simp add: handlePosition_def MAX_ACCEPTABLE_ACCURACY_def)
next
  assume first: "smoothedRef h = None"
  then show acc: "accepted pos h"
    by (simp add: accepted_def discarded_def snapped_def stationary_def)
  have hp: "handlePosition pos h = publish pos (h\<lparr>stableCountRef := 0\<rparr>)"
    using first by (simp add: handlePosition_def)
  show "smoothedRef (handlePosition pos h) = Some (rawOf pos)"
    using first by (simp add: hp smooth_def)
  show "stableCountRef (handlePosition pos h) = 0"
    by (simp add: hp)
  show "stalenessTimerRef (handlePosition pos h) = Some (nextTimer h)"
    by (simp add: hp publish_def rearmStaleness_def clearTimeout_def Let_def split: option.splits)
  show "(nextTimer h, now h + 30000) \<in> set (timers (handlePosition pos h))"
    by (simp add: hp publish_def rearmStaleness_def clearTimeout_def Let_def
        STALENESS_TIMEOUT_MS_def split: option.splits)
  assume none: "lastPushedRef h = None"
  show "lastPushedRef (handlePosition pos h) = Some (rawOf pos)"
    using first none by (simp add: hp publish_lastPushedRef shouldPush_def smooth_def)
  show "state (handlePosition pos h) =
          \<lparr> s_latitude = Some (latitude pos), s_longitude = Some (longitude pos),
            s_accuracy = Some (accuracy pos), error = None, loading = False,
            permissionState = granted, stale = False \<rparr>"
    using first none by (simp add: hp publish_state shouldPush_def smooth_def rawOf_def)
qed

theorem accuracy_gate_witness:
  "handlePosition fixWild baseline = baseline
   \<and> smoothedRef (handlePosition fixWild (initial True False)) = Some (rawOf fixWild)
   \<and> s_accuracy (state (handlePosition fixWild (initial True False))) = Some 500"
  using accuracy_gate [of baseline fixWild] accuracy_gate [of "initial True False" fixWild]
  by (simp add: baseline_eval initial_def fixWild_def)

section \<open>Transient errors\<close>

text \<open>
  C8. An error callback whose code is not \<open>PERMISSION_DENIED\<close> leaves
  \<open>permissionState\<close> and the subscription as they are; it sets an error message
  exactly when no position has been published (latitude still \<open>null\<close>), and with a
  position the public error is \<open>null\<close>.
\<close>

theorem transient_error:
  assumes "code err \<noteq> PERMISSION_DENIED"
  shows "permissionState (state (handleError err h)) = permissionState (state h)
         \<and> watchIdRef (handleError err h) = watchIdRef h
         \<and> watches (handleError err h) = watches h
         \<and> (error (state (handleError err h)) \<noteq> None) = (s_latitude (state h) = None)
         \<and> (s_latitude (state h) = None \<longrightarrow>
              error (state (handleError err h)) = Some acquiringMessage \<and> acquiringMessage \<noteq> [])
         \<and> (s_latitude (state h) \<noteq> None \<longrightarrow> error (state (handleError err h)) = None)"
  using assms by (simp add: handleError_def acquiringMessage_def)

theorem transient_error_witness:
  "code transientError \<noteq> PERMISSION_DENIED
   \<and> permissionState (state (handleError transientError (initial True False))) = prompt
   \<and> error (state (handleError transientError (initial True False))) = Some acquiringMessage
   \<and> permissionState (state (handleError transientError baseline)) = granted
   \<and> watchIdRef (handleError transientError baseline) = Some 1
   \<and> error (state (handleError transientError baseline)) = None"
  using transient_error [of transientError "initial True False"]
        transient_error [of transientError baseline]
  by (simp add: baseline_eval initial_def transientError_def TIMEOUT_def PERMISSION_DENIED_def)

text \<open>
  C10. A transient error arriving while a position is published sets the public error to
  \<open>null\<close> and \<open>loading\<close> to false: it clears an error that was displayed, the
  staleness message included (the \<open>stale\<close> flag itself stays).
\<close>

theorem transient_error_clears:
  assumes "code err \<noteq> PERMISSION_DENIED" and "s_latitude (state h) \<noteq> None"
  shows "error (state (handleError err h)) = None
         \<and> loading (state (handleError err h)) = False
         \<and> stale (state (handleError err h)) = stale (state h)"
  using assms by (simp add: handleError_def)

theorem transient_error_clears_witness:
  "error (state (elapse 30000 baseline)) = Some ''Location signal lost. Move to an open area.''
   \<and> error (state (handleError transientError (elapse 30000 baseline))) = None
   \<and> loading (state (handleError transientError (elapse 30000 baseline))) = False
   \<and> stale (state (handleError transientError (elapse 30000 baseline))) = True"
  using transient_error_clears [of transientError "elapse 30000 baseline"]
  by (simp add: signalLost_baseline transientError_def TIMEOUT_def PERMISSION_DENIED_def)

section \<open>Staleness watchdog\<close>

text \<open>
  C9. After a reading that rearms the watchdog, nothing fires for less than 30 seconds
  of silence; at 30 seconds the timer fires, sets \<open>stale\<close> and the non-empty
  signal-lost message, and leaves latitude, longitude, accuracy, \<open>permissionState\<close>
  and \<open>loading\<close> as they were.
\<close>

theorem staleness_watchdog:
  assumes "accepted pos h \<or> snapped pos h" and "oneTimer h"
    and "h' = handlePosition pos h"
  shows "(d < 30000 \<longrightarrow> state (elapse d h') = state h')
         \<and> (30000 \<le> d \<longrightarrow>
              stale (state (elapse d h')) = True
              \<and> error (state (elapse d h')) = Some ''Location signal lost. Move to an open area.''
              \<and> ''Location signal lost. Move to an open area.'' \<noteq> []
              \<and> s_latitude (state (elapse d h')) = s_latitude (state h')
              \<and> s_longitude (state (elapse d h')) = s_longitude (state h')
              \<and> s_accuracy (state (elapse d h')) = s_accuracy (state h')
              \<and> permissionState (state (elapse d h')) = permissionState (state h')
              \<and> loading (state (elapse d h')) = loading (state h'))"
proof -
  have "timers h' = [(nextTimer h, now h' + STALENESS_TIMEOUT_MS)]"
    using handlePosition_rearmed [OF assms(1,2)] assms(3) by simp
  then show ?thesis
    by (simp add: elapse_single STALENESS_TIMEOUT_MS_def signalLost_def)
qed

theorem staleness_watchdog_witness:
  "state (elapse 29999 (handlePosition fixA (initial True False)))
     = state (handlePosition fixA (initial True False))
   \<and> stale (state (elapse 30000 (handlePosition fixA (initial True False)))) = True
   \<and> error (state (elapse 30000 (handlePosition fixA (initial True False))))
       = Some ''Location signal lost. Move to an open area.''
   \<and> s_latitude (state (elapse 30000 (handlePosition fixA (initial True False)))) = Some 0"
proof -
  have a: "accepted fixA (initial True False) \<or> snapped fixA (initial True False)"
    by (simp add: accepted_def discarded_def snapped_def stationary_def initial_def)
  have o: "oneTimer (initial True False)"
    by (simp add: oneTimer_def initial_def)
  have s: "s_latitude (state (handlePosition fixA (initial True False))) = Some 0"
    by (simp add: handlePosition_def publish_state shouldPush_def smooth_def rawOf_def
        initial_def fixA_def)
  show ?thesis
    using staleness_watchdog [OF a o refl, of 29999] staleness_watchdog [OF a o refl, of 30000] s
    by simp
qed

section \<open>Movement-threshold gate\<close>

text \<open>
  C3. For a reading that reaches the movement-threshold gate: when nothing is published
  yet, or the new smoothed position is at least 5 m from the published one, the public
  state becomes the smoothed coordinates and accuracy with error, loading and stale
  cleared and \<open>permissionState\<close> granted, and the published position becomes the
  smoothed one; when the distance is below 5 m the exposed coordinates and the
  published position stay and error, loading and stale are cleared. One call is one
  transition of the public state, so the update happens once for the reading.
\<close>

theorem movement_gate:
  assumes "accepted pos h" and "error (state h) \<noteq> Some []"
    and "sm = smooth (smoothedRef h) (rawOf pos) EMA_ALPHA"
    and "h' = handlePosition pos h"
  shows "(lastPushedRef h = None
          \<or> (lastPushedRef h = Some p
              \<and> 5 \<le> haversine (latitude p) (longitude p) (latitude sm) (longitude sm))
          \<longrightarrow> lastPushedRef h' = Some sm
              \<and> state h' = \<lparr> s_latitude = Some (latitude sm), s_longitude = Some (longitude sm),
                             s_accuracy = Some (accuracy sm), error = None, loading = False,
                             permissionState = granted, stale = False \<rparr>)
         \<and> (lastPushedRef h = Some p
              \<and> haversine (latitude p) (longitude p) (latitude sm) (longitude sm) < 5
          \<longrightarrow> lastPushedRef h' = lastPushedRef h
              \<and> s_latitude (state h') = s_latitude (state h)
              \<and> s_longitude (state h') = s_longitude (state h)
              \<and> s_accuracy (state h') = s_accuracy (state h)
              \<and> error (state h') = None
              \<and> loading (state h') = False
              \<and> stale (state h') = False
              \<and> permissionState (state h') = granted)"
proof -
  let ?h0 = "h\<lparr>stableCountRef := (if stationary pos h then stableCountRef h + 1 else 0)\<rparr>"
  have hp: "h' = publish pos ?h0"
    using assms(1,4) by (simp add: handlePosition_accepted)
  have clear: "flagsClear (clearFlags (state h))"
    using assms(2) by (rule clearFlags_flagsClear)
  show ?thesis
  proof (intro conjI impI)
    assume "lastPushedRef h = None
          \<or> (lastPushedRef h = Some p
              \<and> 5 \<le> haversine (latitude p) (longitude p) (latitude sm) (longitude sm))"
    then have push: "shouldPush (lastPushedRef h) sm"
      by (auto simp add: shouldPush_def MIN_MOVEMENT_THRESHOLD_def)
    show "lastPushedRef h' = Some sm"
      using push by (simp add: hp publish_lastPushedRef assms(3))
    show "state h' = \<lparr> s_latitude = Some (latitude sm), s_longitude = Some (longitude sm),
                       s_accuracy = Some (accuracy sm), error = None, loading = False,
                       permissionState = granted, stale = False \<rparr>"
      using push by (simp add: hp publish_state assms(3) Let_def)
  next
    assume "lastPushedRef h = Some p
              \<and> haversine (latitude p) (longitude p) (latitude sm) (longitude sm) < 5"
    then have stay: "\<not> shouldPush (lastPushedRef h) sm"
      by (simp add: shouldPush_def MIN_MOVEMENT_THRESHOLD_def)
    then have st: "state h' = clearFlags (state h)"
      by (simp add: hp publish_state assms(3) Let_def)
    show "lastPushedRef h' = lastPushedRef h"
      using stay by (simp add: hp publish_lastPushedRef assms(3))
    show "s_latitude (state h') = s_latitude (state h)"
      "s_longitude (state h') = s_longitude (state h)"
      "s_accuracy (state h') = s_accuracy (state h)"
      by (simp_all add: st)
    show "error (state h') = None" "loading (state h') = False" "stale (state h') = False"
      "permissionState (state h') = granted"
      using clear by (simp_all add: st flagsClear_def)
  qed
qed

theorem movement_gate_witness:
  "s_longitude (state (handlePosition fixB baseline)) = Some 0.00015
   \<and> lastPushedRef (handlePosition fixB baseline)
       = Some \<lparr>latitude = 0, longitude = 0.00015, accuracy = 10\<rparr>
   \<and> s_longitude (state (handlePosition fixA baseline)) = s_longitude (state baseline)
   \<and> error (state (handlePosition fixA baseline)) = None
   \<and> lastPushedRef (handlePosition fixA baseline) = lastPushedRef baseline"
proof -
  have a: "accepted fixB baseline" "accepted fixA baseline"
    by (simp_all add: accepted_def discarded_def snapped_def stationary_def lowSpeed_def
        fixA_def fixB_def MAX_ACCEPTABLE_ACCURACY_def)
  have e: "error (state baseline) \<noteq> Some []"
    by (simp add: baseline_eval)
  have far: "5 \<le> haversine 0 0 0 0.00015"
    using shouldPush_east_far [of 0 "0.00015" 10 10]
    by (simp add: shouldPush_def MIN_MOVEMENT_THRESHOLD_def)
  have p: "lastPushedRef baseline = Some \<lparr>latitude = 0, longitude = 0, accuracy = 10\<rparr>"
    by (simp add: baseline_eval)
  have smB: "smooth (smoothedRef baseline) (rawOf fixB) EMA_ALPHA
               = \<lparr>latitude = 0, longitude = 0.00015, accuracy = 10\<rparr>"
    and smA: "smooth (smoothedRef baseline) (rawOf fixA) EMA_ALPHA
               = \<lparr>latitude = 0, longitude = 0, accuracy = 10\<rparr>"
    by (simp_all add: baseline_eval smooth_def rawOf_def fixA_def fixB_def EMA_ALPHA_def)
  show ?thesis
    using movement_gate [OF a(1) e refl refl, of "\<lparr>latitude = 0, longitude = 0, accuracy = 10\<rparr>"]
      movement_gate [OF a(2) e refl refl, of "\<lparr>latitude = 0, longitude = 0, accuracy = 10\<rparr>"]
      far p
    by (simp add: smA smB haversine_same)
qed

section \<open>Stationary filter\<close>

text \<open>
  C4, for readings that pass the accuracy gate (accuracy at most 100 m) after a baseline
  exists: a reading with a reported speed in [0, 0.3) increments the stable count; when
  the count reaches 3 the reading leaves the smoothed and published positions and the
  exposed coordinates unchanged, rearms the watchdog and leaves stale and loading false
  and \<open>permissionState\<close> granted; below 3 it goes on through smoothing and the
  movement gate. A reading with absent speed or speed at or above 0.3 resets the count
  to zero and goes on through smoothing and the movement gate.
\<close>

theorem speed_gate:
  assumes "smoothedRef h \<noteq> None" and "accuracy pos \<le> 100"
    and "h' = handlePosition pos h"
  shows "(speed pos = Some v \<and> 0 \<le> v \<and> v < 0.3 \<longrightarrow>
            stableCountRef h' = stableCountRef h + 1
            \<and> (3 \<le> stableCountRef h + 1 \<longrightarrow>
                 smoothedRef h' = smoothedRef h
                 \<and> lastPushedRef h' = lastPushedRef h
                 \<and> s_latitude (state h') = s_latitude (state h)
                 \<and> s_longitude (state h') = s_longitude (state h)
                 \<and> s_accuracy (state h') = s_accuracy (state h)
                 \<and> stalenessTimerRef h' = Some (nextTimer h)
                 \<and> (nextTimer h, now h + 30000) \<in> set (timers h')
                 \<and> (oneTimer h \<longrightarrow> timers h' = [(nextTimer h, now h + 30000)])
                 \<and> stale (state h') = False
                 \<and> loading (state h') = False
                 \<and> permissionState (state h') = granted)
            \<and> (stableCountRef h + 1 < 3 \<longrightarrow>
                 h' = publish pos (h\<lparr>stableCountRef := stableCountRef h + 1\<rparr>)))
         \<and> (speed pos = None \<or> (speed pos = Some v \<and> 0.3 \<le> v) \<longrightarrow>
              stableCountRef h' = 0
              \<and> h' = publish pos (h\<lparr>stableCountRef := 0\<rparr>))"
proof (intro conjI impI)
  assume slow: "speed pos = Some v \<and> 0 \<le> v \<and> v < 0.3"
  then have low: "lowSpeed pos"
    by (simp add: lowSpeed_def)
  have nd: "\<not> discarded pos h"
    using assms(2) by (simp add: discarded_def MAX_ACCEPTABLE_ACCURACY_def)
  have st: "stationary pos h"
    using low assms(1) by (simp add: stationary_def)
  show "stableCountRef h' = stableCountRef h + 1"
    using low assms by (simp add: handlePosition_def MAX_ACCEPTABLE_ACCURACY_def snap_frame Let_def)
  {
    assume "stableCountRef h + 1 < 3"
    then show "h' = publish pos (h\<lparr>stableCountRef := stableCountRef h + 1\<rparr>)"
      using low assms
      by (simp add: handlePosition_def MAX_ACCEPTABLE_ACCURACY_def SNAP_AFTER_STABLE_COUNT_def Let_def)
  }
  assume "3 \<le> stableCountRef h + 1"
  then have "snapped pos h"
    using nd st by (simp add: snapped_def SNAP_AFTER_STABLE_COUNT_def)
  then have hs: "h' = snap (h\<lparr>stableCountRef := stableCountRef h + 1\<rparr>)"
    using assms(3) by (simp add: handlePosition_snapped)
  show "smoothedRef h' = smoothedRef h" "lastPushedRef h' = lastPushedRef h"
    "s_latitude (state h') = s_latitude (state h)"
    "s_longitude (state h') = s_longitude (state h)"
    "s_accuracy (state h') = s_accuracy (state h)"
    by (simp_all add: hs snap_frame)
  show "stale (state h') = False" "loading (state h') = False"
    "permissionState (state h') = granted"
    by (simp_all add: hs snap_frame clearFlags_flags)
  show "stalenessTimerRef h' = Some (nextTimer h)"
    "(nextTimer h, now h + 30000) \<in> set (timers h')"
    using rearmStaleness_armed [of "h\<lparr>stableCountRef := stableCountRef h + 1\<rparr>"]
    by (simp_all add: hs snap_def Let_def STALENESS_TIMEOUT_MS_def)
  {
    assume "oneTimer h"
    then show "timers h' = [(nextTimer h, now h + 30000)]"
      using handlePosition_rearmed(1) [of pos h] \<open>snapped pos h\<close> assms(3)
      by (simp add: STALENESS_TIMEOUT_MS_def)
  }
next
  assume fast: "speed pos = None \<or> (speed pos = Some v \<and> 0.3 \<le> v)"
  then have "\<not> lowSpeed pos"
    by (auto simp add: lowSpeed_def)
  then show eq: "h' = publish pos (h\<lparr>stableCountRef := 0\<rparr>)"
    using assms by (simp add: handlePosition_def MAX_ACCEPTABLE_ACCURACY_def)
  show "stableCountRef h' = 0"
    by (simp add: eq)
qed

theorem speed_gate_witness:
  "stableCountRef twoSlow = 2
   \<and> stableCountRef (handlePosition fixSlow twoSlow) = 3
   \<and> smoothedRef (handlePosition fixSlow twoSlow) = smoothedRef twoSlow
   \<and> lastPushedRef (handlePosition fixSlow twoSlow) = lastPushedRef twoSlow
   \<and> timers (handlePosition fixSlow twoSlow) = [(4, 30000)]
   \<and> permissionState (state (handlePosition fixSlow twoSlow)) = granted
   \<and> stableCountRef (handlePosition fixB twoSlow) = 0"
proof -
  have b: "smoothedRef twoSlow \<noteq> None"
    by (simp add: twoSlow_eval baseline_eval)
  have a: "accuracy fixSlow \<le> 100" "accuracy fixB \<le> 100"
    by (simp_all add: fixSlow_def fixB_def)
  have o: "oneTimer twoSlow"
    by (simp add: twoSlow_eval baseline_eval oneTimer_def)
  show ?thesis
    using speed_gate [OF b a(1) refl, of "0.1"] speed_gate [OF b a(2) refl, of 0] o
    by (simp add: twoSlow_eval baseline_eval initial_def fixSlow_def fixB_def)
qed

text \<open>
  Without the accuracy condition the statement fails: with a baseline and a stable count
  of 2, a reading of accuracy 500 m at speed 0 leaves the count at 2, and the same
  reading without a speed does not reset it.
\<close>

theorem speed_gate_counterexample:
  "smoothedRef twoSlow \<noteq> None
   \<and> speed fixWild = Some 0
   \<and> stableCountRef (handlePosition fixWild twoSlow) \<noteq> stableCountRef twoSlow + 1
   \<and> speed (fixWild\<lparr>speed := None\<rparr>) = None
   \<and> stableCountRef (handlePosition (fixWild\<lparr>speed := None\<rparr>) twoSlow) \<noteq> 0"
  by (simp add: twoSlow_eval baseline_eval initial_def fixWild_def handlePosition_def
      MAX_ACCEPTABLE_ACCURACY_def)

section \<open>Feeding the same reading twice\<close>

text \<open>
  C1, as one more pass of the pipeline over an accepted reading: something is published
  after the first pass; a second pass that the accuracy gate discards changes nothing;
  one that is snapped leaves the smoothed position, the published position and the
  public state and increments the stable count; otherwise the smoothed position becomes
  \<open>alpha * reading + (1 - alpha) * smoothed\<close>, the published position and the public
  state are unchanged when that position is less than 5 m from the published one and
  become it when it is 5 m or more away, and the stable count is unchanged when the
  speed is absent, negative or at least 0.3 m/s and incremented otherwise. Nothing here
  needs the average of a value with itself to be that value, which exact arithmetic
  gives and rounded arithmetic does not.
\<close>

theorem refeed_second_pass:
  assumes "accepted pos h" and "error (state h) \<noteq> Some []"
    and "h1 = handlePosition pos h"
    and "h2 = handlePosition pos h1"
    and "sm2 = smooth (smoothedRef h1) (rawOf pos) EMA_ALPHA"
  shows "lastPushedRef h1 \<noteq> None
         \<and> (discarded pos h1 \<longrightarrow> h2 = h1)
         \<and> (snapped pos h1 \<longrightarrow>
              smoothedRef h2 = smoothedRef h1
              \<and> lastPushedRef h2 = lastPushedRef h1
              \<and> state h2 = state h1
              \<and> stableCountRef h2 = stableCountRef h1 + 1)
         \<and> (accepted pos h1 \<longrightarrow>
              smoothedRef h2 = Some sm2
              \<and> (lowSpeed pos \<longrightarrow> stableCountRef h2 = stableCountRef h1 + 1)
              \<and> (\<not> lowSpeed pos \<longrightarrow> stableCountRef h2 = stableCountRef h1)
              \<and> (lastPushedRef h1 = Some p
                   \<and> haversine (latitude p) (longitude p) (latitude sm2) (longitude sm2) < 5
                  \<longrightarrow> lastPushedRef h2 = lastPushedRef h1 \<and> state h2 = state h1)
              \<and> (lastPushedRef h1 = Some p
                   \<and> 5 \<le> haversine (latitude p) (longitude p) (latitude sm2) (longitude sm2)
                  \<longrightarrow> lastPushedRef h2 = Some sm2
                      \<and> state h2 =
                          \<lparr> s_latitude = Some (latitude sm2), s_longitude = Some (longitude sm2),
                            s_accuracy = Some (accuracy sm2), error = None, loading = False,
                            permissionState = granted, stale = False \<rparr>))"
proof -
  let ?h0 = "h\<lparr>stableCountRef := (if stationary pos h then stableCountRef h + 1 else 0)\<rparr>"
  have h1: "h1 = publish pos ?h0"
    using assms(1,3) by (simp add: handlePosition_accepted)
  have clear: "flagsClear (state h1)"
    unfolding h1 using assms(2) by (intro publish_flagsClear) simp
  have base: "smoothedRef h1 \<noteq> None"
    by (simp add: h1)
  have count: "\<not> lowSpeed pos \<Longrightarrow> stableCountRef h1 = 0"
    by (simp add: h1 stationary_def)
  have pushed: "lastPushedRef h1 \<noteq> None"
    unfolding h1 by (rule publish_lastPushedRef_Some)
  have d: "h2 = h1" if "discarded pos h1"
    using that by (simp add: assms(4) handlePosition_discarded)
  have s: "smoothedRef h2 = smoothedRef h1 \<and> lastPushedRef h2 = lastPushedRef h1
           \<and> state h2 = state h1 \<and> stableCountRef h2 = stableCountRef h1 + 1"
    if "snapped pos h1"
  proof -
    have "h2 = snap (h1\<lparr>stableCountRef := stableCountRef h1 + 1\<rparr>)"
      using that by (simp add: assms(4) handlePosition_snapped)
    then show ?thesis
      using clear by (simp add: snap_frame clearFlags_id)
  qed
  have a: "smoothedRef h2 = Some sm2
           \<and> (lowSpeed pos \<longrightarrow> stableCountRef h2 = stableCountRef h1 + 1)
           \<and> (\<not> lowSpeed pos \<longrightarrow> stableCountRef h2 = stableCountRef h1)
           \<and> (lastPushedRef h1 = Some p
                \<and> haversine (latitude p) (longitude p) (latitude sm2) (longitude sm2) < 5
               \<longrightarrow> lastPushedRef h2 = lastPushedRef h1 \<and> state h2 = state h1)
           \<and> (lastPushedRef h1 = Some p
                \<and> 5 \<le> haversine (latitude p) (longitude p) (latitude sm2) (longitude sm2)
               \<longrightarrow> lastPushedRef h2 = Some sm2
                   \<and> state h2 =
                       \<lparr> s_latitude = Some (latitude sm2), s_longitude = Some (longitude sm2),
                         s_accuracy = Some (accuracy sm2), error = None, loading = False,
                         permissionState = granted, stale = False \<rparr>)"
    if acc: "accepted pos h1"
  proof -
    let ?h1' = "h1\<lparr>stableCountRef := (if stationary pos h1 then stableCountRef h1 + 1 else 0)\<rparr>"
    have h2: "h2 = publish pos ?h1'"
      using acc by (simp add: assms(4) handlePosition_accepted)
    have sm: "smooth (smoothedRef ?h1') (rawOf pos) EMA_ALPHA = sm2"
      by (simp add: assms(5))
    show ?thesis
    proof (intro conjI impI)
      show "smoothedRef h2 = Some sm2"
        unfolding h2 publish_smoothedRef sm by simp
      show "stableCountRef h2 = stableCountRef h1 + 1" if "lowSpeed pos"
        using that base by (simp add: h2 stationary_def)
      show "stableCountRef h2 = stableCountRef h1" if "\<not> lowSpeed pos"
        using that count by (simp add: h2 stationary_def)
    next
      assume "lastPushedRef h1 = Some p
                \<and> haversine (latitude p) (longitude p) (latitude sm2) (longitude sm2) < 5"
      then have stay: "\<not> shouldPush (lastPushedRef ?h1') sm2"
        by (simp add: shouldPush_def MIN_MOVEMENT_THRESHOLD_def)
      show "lastPushedRef h2 = lastPushedRef h1"
        unfolding h2 publish_lastPushedRef sm using stay by simp
      show "state h2 = state h1"
        unfolding h2 publish_state sm using stay clear by (simp add: Let_def clearFlags_id)
    next
      assume "lastPushedRef h1 = Some p
                \<and> 5 \<le> haversine (latitude p) (longitude p) (latitude sm2) (longitude sm2)"
      then have push: "shouldPush (lastPushedRef ?h1') sm2"
        by (simp add: shouldPush_def MIN_MOVEMENT_THRESHOLD_def)
      show "lastPushedRef h2 = Some sm2"
        unfolding h2 publish_lastPushedRef sm using push by simp
      show "state h2 = \<lparr> s_latitude = Some (latitude sm2), s_longitude = Some (longitude sm2),
                         s_accuracy = Some (accuracy sm2), error = None, loading = False,
                         permissionState = granted, stale = False \<rparr>"
        unfolding h2 publish_state sm using push by (simp add: Let_def)
    qed
  qed
  show ?thesis
    using pushed d s a by blast
qed

theorem refeed_second_pass_witness:
  "accepted fixNear baseline
   \<and> accepted fixNear (handlePosition fixNear baseline)
   \<and> smoothedRef (handlePosition fixNear baseline)
       = Some \<lparr>latitude = 0, longitude = 0.000015, accuracy = 10\<rparr>
   \<and> smoothedRef (handlePosition fixNear (handlePosition fixNear baseline))
       = Some \<lparr>latitude = 0, longitude = 0.00002775, accuracy = 10\<rparr>
   \<and> lastPushedRef (handlePosition fixNear (handlePosition fixNear baseline))
       = lastPushedRef (handlePosition fixNear baseline)
   \<and> state (handlePosition fixNear (handlePosition fixNear baseline))
       = state (handlePosition fixNear baseline)
   \<and> stableCountRef (handlePosition fixNear (handlePosition fixNear baseline))
       = stableCountRef (handlePosition fixNear baseline)
   \<and> accepted fixWild (initial True False)
   \<and> discarded fixWild (handlePosition fixWild (initial True False))
   \<and> handlePosition fixWild (handlePosition fixWild (initial True False))
       = handlePosition fixWild (initial True False)"
proof -
  have a: "accepted fixNear baseline"
    by (simp add: accepted_def discarded_def snapped_def stationary_def lowSpeed_def
        fixNear_def MAX_ACCEPTABLE_ACCURACY_def)
  have a1: "accepted fixNear (handlePosition fixNear baseline)"
    by (simp add: accepted_def discarded_def snapped_def stationary_def lowSpeed_def
        fixNear_def MAX_ACCEPTABLE_ACCURACY_def)
  have e: "error (state baseline) \<noteq> Some []"
    by (simp add: baseline_eval)
  have l: "\<not> lowSpeed fixNear"
    by (simp add: lowSpeed_def fixNear_def)
  have s1: "smoothedRef (handlePosition fixNear baseline)
              = Some \<lparr>latitude = 0, longitude = 0.000015, accuracy = 10\<rparr>"
    and p1: "lastPushedRef (handlePosition fixNear baseline)
              = Some \<lparr>latitude = 0, longitude = 0, accuracy = 10\<rparr>"
    unfolding baseline_fixNear by (simp_all add: baseline_eval)
  have sm2: "smooth (smoothedRef (handlePosition fixNear baseline)) (rawOf fixNear) EMA_ALPHA
              = \<lparr>latitude = 0, longitude = 0.00002775, accuracy = 10\<rparr>"
    unfolding s1 by (simp add: smooth_def rawOf_def fixNear_def EMA_ALPHA_def)
  have near: "haversine 0 0 0 0.00002775 < 5"
    using shouldPush_east_near [of 0 "0.00002775" 10 10]
    by (simp add: shouldPush_def MIN_MOVEMENT_THRESHOLD_def)
  have w: "accepted fixWild (initial True False)"
    by (simp add: accepted_def discarded_def snapped_def stationary_def initial_def)
  have ew: "error (state (initial True False)) \<noteq> Some []"
    by (simp add: initial_def)
  have dw: "discarded fixWild (handlePosition fixWild (initial True False))"
    by (simp add: discarded_def handlePosition_def initial_def fixWild_def
        MAX_ACCEPTABLE_ACCURACY_def)
  have again: "handlePosition fixWild (handlePosition fixWild (initial True False))
                 = handlePosition fixWild (initial True False)"
    using refeed_second_pass [OF w ew refl refl refl] dw by blast
  have second:
    "smoothedRef (handlePosition fixNear (handlePosition fixNear baseline))
       = Some \<lparr>latitude = 0, longitude = 0.00002775, accuracy = 10\<rparr>
     \<and> lastPushedRef (handlePosition fixNear (handlePosition fixNear baseline))
         = lastPushedRef (handlePosition fixNear baseline)
     \<and> state (handlePosition fixNear (handlePosition fixNear baseline))
         = state (handlePosition fixNear baseline)
     \<and> stableCountRef (handlePosition fixNear (handlePosition fixNear baseline))
         = stableCountRef (handlePosition fixNear baseline)"
    using refeed_second_pass [OF a e refl refl sm2 [symmetric],
        of "\<lparr>latitude = 0, longitude = 0, accuracy = 10\<rparr>"] a1 l p1 near
    by simp
  show ?thesis
    using a a1 s1 w dw again second by simp
qed

text \<open>
  In general the second pass is another step of the moving average: after the baseline
  at the origin, a fix 0.001 degrees east is smoothed to 0.00015 degrees and published;
  fed again it is smoothed to 0.0002775 degrees, 14 m further, and published again.
  A reading at 0.1 m/s raises the stable count on every pass.
\<close>

theorem refeed_counterexample:
  "accepted fixB baseline
   \<and> smoothedRef (handlePosition fixB (handlePosition fixB baseline))
       \<noteq> smoothedRef (handlePosition fixB baseline)
   \<and> lastPushedRef (handlePosition fixB (handlePosition fixB baseline))
       \<noteq> lastPushedRef (handlePosition fixB baseline)
   \<and> state (handlePosition fixB (handlePosition fixB baseline))
       \<noteq> state (handlePosition fixB baseline)
   \<and> accepted fixSlow baseline
   \<and> stableCountRef (handlePosition fixSlow (handlePosition fixSlow baseline))
       \<noteq> stableCountRef (handlePosition fixSlow baseline)"
proof -
  have a: "accepted fixB baseline" "accepted fixSlow baseline"
    by (simp_all add: accepted_def discarded_def snapped_def stationary_def lowSpeed_def
        fixB_def fixSlow_def baseline_eval MAX_ACCEPTABLE_ACCURACY_def
        SNAP_AFTER_STABLE_COUNT_def initial_def)
  have again: "handlePosition fixB (handlePosition fixB baseline) = baseline\<lparr>
      state := \<lparr> s_latitude = Some 0, s_longitude = Some 0.0002775, s_accuracy = Some 10,
                 error = None, loading = False, permissionState = granted, stale = False \<rparr>,
      smoothedRef := Some \<lparr>latitude = 0, longitude = 0.0002775, accuracy = 10\<rparr>,
      lastPushedRef := Some \<lparr>latitude = 0, longitude = 0.0002775, accuracy = 10\<rparr>,
      stalenessTimerRef := Some 3,
      timers := [(3, 30000)],
      nextTimer := 4\<rparr>"
    by (simp add: baseline_fixB baseline_eval initial_def handlePosition_def publish_def
        rearmStaleness_def clearTimeout_def smooth_def fixB_def Let_def shouldPush_east_far
        MAX_ACCEPTABLE_ACCURACY_def STALENESS_TIMEOUT_MS_def EMA_ALPHA_def lowSpeed_def)
  have slow: "handlePosition fixSlow baseline = baseline\<lparr>
      stableCountRef := 1,
      stalenessTimerRef := Some 2,
      timers := [(2, 30000)],
      nextTimer := 3\<rparr>"
    by (simp add: baseline_eval initial_def handlePosition_def publish_def
        rearmStaleness_def clearTimeout_def smooth_def fixSlow_def Let_def shouldPush_same
        clearFlags_def truthy_def MAX_ACCEPTABLE_ACCURACY_def STALENESS_TIMEOUT_MS_def
        SNAP_AFTER_STABLE_COUNT_def EMA_ALPHA_def lowSpeed_def)
  have slow2: "stableCountRef (handlePosition fixSlow (handlePosition fixSlow baseline)) = 2"
    unfolding slow
    by (simp add: baseline_eval initial_def handlePosition_def fixSlow_def lowSpeed_def
        MAX_ACCEPTABLE_ACCURACY_def SNAP_AFTER_STABLE_COUNT_def Let_def)
  have once: "smoothedRef (handlePosition fixB baseline)
                = Some \<lparr>latitude = 0, longitude = 0.00015, accuracy = 10\<rparr>"
    "lastPushedRef (handlePosition fixB baseline)
       = Some \<lparr>latitude = 0, longitude = 0.00015, accuracy = 10\<rparr>"
    "s_longitude (state (handlePosition fixB baseline)) = Some 0.00015"
    by (simp_all add: baseline_fixB)
  have twice: "smoothedRef (handlePosition fixB (handlePosition fixB baseline))
                = Some \<lparr>latitude = 0, longitude = 0.0002775, accuracy = 10\<rparr>"
    "lastPushedRef (handlePosition fixB (handlePosition fixB baseline))
       = Some \<lparr>latitude = 0, longitude = 0.0002775, accuracy = 10\<rparr>"
    "s_longitude (state (handlePosition fixB (handlePosition fixB baseline))) = Some 0.0002775"
    by (simp_all add: again)
  have st: "state (handlePosition fixB (handlePosition fixB baseline))
              \<noteq> state (handlePosition fixB baseline)"
    using once(3) twice(3) by auto
  have c1: "stableCountRef (handlePosition fixSlow baseline) = 1"
    by (simp add: slow)
  show ?thesis
    using a st by (simp add: once twice c1 slow2)
qed

section \<open>Teardown\<close>

text \<open>
  C2. The clean-up of the effect cancels the subscription and clears the watchdog
  timer, but the \<open>change\<close> listener stays attached to the permission status: after
  mount, a resolved permission query, a first fix and the clean-up, a permission change
  to denied still writes the revoked-access error and \<open>denied\<close> to the public state.
\<close>

theorem listener_after_cleanup:
  "listener (run [Mount, QueryResolved prompt, WatchSuccess fixA, Unmount] (initial True True))
   \<and> watches (run [Mount, QueryResolved prompt, WatchSuccess fixA, Unmount] (initial True True)) = []
   \<and> timers (run [Mount, QueryResolved prompt, WatchSuccess fixA, Unmount] (initial True True)) = []
   \<and> error (state (run [Mount, QueryResolved prompt, WatchSuccess fixA, Unmount]
        (initial True True))) = None
   \<and> permissionState (state (run [Mount, QueryResolved prompt, WatchSuccess fixA, Unmount]
        (initial True True))) = granted
   \<and> error (state (run [Mount, QueryResolved prompt, WatchSuccess fixA, Unmount,
        PermissionChange denied] (initial True True))) = Some ''Location access revoked.''
   \<and> permissionState (state (run [Mount, QueryResolved prompt, WatchSuccess fixA, Unmount,
        PermissionChange denied] (initial True True))) = denied"
  by (simp add: run_def initial_def useEffect_def queryThen_def startWatching_def
      handlePosition_def publish_def rearmStaleness_def clearTimeout_def clearWatch_def
      shouldPush_def smooth_def fixA_def lowSpeed_def cleanup_def stopWatching_def onChange_def
      Let_def MAX_ACCEPTABLE_ACCURACY_def STALENESS_TIMEOUT_MS_def)

section \<open>Permission state and the subscription\<close>

text \<open>
  C7. After a permission change to denied the subscription is gone and the public
  \<open>permissionState\<close> is denied; a following change to granted restarts the
  subscription without writing \<open>permissionState\<close>, so the hook is watching while its
  public state still says denied.
\<close>

theorem regrant_while_denied:
  "permissionState (state (run [Mount, QueryResolved granted, PermissionChange denied]
      (initial True True))) = denied
   \<and> watchIdRef (run [Mount, QueryResolved granted, PermissionChange denied]
      (initial True True)) = None
   \<and> permissionState (state (run [Mount, QueryResolved granted, PermissionChange denied,
      PermissionChange granted] (initial True True))) = denied
   \<and> watchIdRef (run [Mount, QueryResolved granted, PermissionChange denied,
      PermissionChange granted] (initial True True)) = Some 2
   \<and> watches (run [Mount, QueryResolved granted, PermissionChange denied,
      PermissionChange granted] (initial True True)) = [2]"
  by (simp add: run_def initial_def useEffect_def queryThen_def startWatching_def
      clearWatch_def stopWatching_def onChange_def Let_def)

end
